theory Spec2Isabelle
  imports Complex_Main
begin

section \<open>Python values\<close>

text \<open>
  The caches, the token header, the token claims and the key set are all Python objects
  obtained from \<^verbatim>\<open>json.loads\<close>: \<^verbatim>\<open>None\<close>, booleans, integers, strings,
  lists and dictionaries. A dictionary is kept as an association list read with
  \<open>map_of\<close>; its keys are meant to be distinct, as in Python. JSON numbers with a
  fractional part are left out of the model. A character is a code point below 256.
  Python's \<^verbatim>\<open>None\<close> is \<open>JNull\<close>: a module variable that is \<^verbatim>\<open>None\<close> and a JSON
  body \<^verbatim>\<open>null\<close> are the same value, as they are for the code.
\<close>

datatype json =
    JNull
  | JBool bool
  | JInt int
  | JStr string
  | JList "json list"
  | JObj "(string \<times> json) list"

type_synonym dict = "(string \<times> json) list"

text \<open>Truth value of an object, as tested by \<^verbatim>\<open>if not x\<close>.\<close>

fun truthy :: "json \<Rightarrow> bool" where
  "truthy JNull = False"
| "truthy (JBool b) = b"
| "truthy (JInt i) = (i \<noteq> 0)"
| "truthy (JStr s) = (s \<noteq> [])"
| "truthy (JList xs) = (xs \<noteq> [])"
| "truthy (JObj d) = (d \<noteq> [])"

text \<open>
  Python's \<^verbatim>\<open>==\<close> on these values: \<^verbatim>\<open>bool\<close> is a subclass of \<^verbatim>\<open>int\<close>
  (\<^verbatim>\<open>True == 1\<close>), lists compare element by element, dictionaries compare as
  mappings, values of unrelated types are unequal.
\<close>

fun py_eq :: "json \<Rightarrow> json \<Rightarrow> bool" where
  "py_eq JNull JNull = True"
| "py_eq (JBool a) (JBool b) = (a = b)"
| "py_eq (JBool a) (JInt j) = ((if a then 1 else 0) = j)"
| "py_eq (JInt i) (JBool b) = (i = (if b then 1 else 0))"
| "py_eq (JInt i) (JInt j) = (i = j)"
| "py_eq (JStr s) (JStr t) = (s = t)"
| "py_eq (JList xs) (JList ys) = list_all2 py_eq xs ys"
| "py_eq (JObj d) (JObj e) =
     (length d = length e \<and>
      list_all (\<lambda>(k, v). list_ex (\<lambda>(k', w). k' = k \<and> py_eq v w) e) d)"
| "py_eq _ _ = False"

text \<open>\<^verbatim>\<open>d.get(k)\<close> and \<^verbatim>\<open>d.get(k, default)\<close> on a dictionary.\<close>

definition py_get_default :: "dict \<Rightarrow> string \<Rightarrow> json \<Rightarrow> json" where
  "py_get_default d k dflt = (case map_of d k of None \<Rightarrow> dflt | Some v \<Rightarrow> v)"

definition py_get :: "dict \<Rightarrow> string \<Rightarrow> json" where
  "py_get d k = py_get_default d k JNull"

text \<open>The exceptions the two modules raise or let through.\<close>

datatype value_error =
    MissingKid          \<comment> \<open>Token header missing 'kid' field\<close>
  | NoMatchingKey json  \<comment> \<open>No matching key found for kid: ...\<close>
  | NoJwksUri           \<comment> \<open>No jwks\_uri found in OIDC configuration\<close>
  | MissingSub          \<comment> \<open>Token missing 'sub' claim\<close>
  | MissingScope        \<comment> \<open>Token missing required 'bookverse:api' scope\<close>

datatype exn =
    ValueError value_error
  | AttributeError
  | TypeError
  | JWTError
  | RequestException
  | HTTPException nat string "(string \<times> string) list option"

text \<open>
  \<^verbatim>\<open>for key in obj\<close>: a list yields its elements, a dictionary its keys, a string
  its characters; \<^verbatim>\<open>None\<close>, booleans and integers are not iterable.
\<close>

fun py_iter :: "json \<Rightarrow> exn + json list" where
  "py_iter (JList xs) = Inr xs"
| "py_iter (JObj d) = Inr (map (\<lambda>(k, v). JStr k) d)"
| "py_iter (JStr s) = Inr (map (\<lambda>c. JStr [c]) s)"
| "py_iter _ = Inl TypeError"

text \<open>
  \<^verbatim>\<open>str.split()\<close> with no argument: the maximal runs of non-whitespace characters.
  The whitespace characters below code point 256 are 9 to 13, 28 to 32, 133 and 160.
\<close>

definition is_space :: "char \<Rightarrow> bool" where
  "is_space c = (of_char c \<in> {9, 10, 11, 12, 13, 28, 29, 30, 31, 32, 133, 160 :: nat})"

fun split_ws :: "string \<Rightarrow> string \<Rightarrow> string list" where
  "split_ws [] w = (if w = [] then [] else [w])"
| "split_ws (c # cs) w =
     (if is_space c then (if w = [] then split_ws cs [] else w # split_ws cs [])
      else split_ws cs (w @ [c]))"

definition py_split :: "string \<Rightarrow> string list" where
  "py_split s = split_ws s []"

section \<open>oidc.py\<close>

subsection \<open>Configuration, collaborators and module state\<close>

text \<open>
  The module constants read from the environment at import time, and the two
  collaborators the code calls: the HTTP client and the JOSE library. A request
  (\<^verbatim>\<open>requests.get\<close>, \<^verbatim>\<open>raise_for_status\<close>, \<^verbatim>\<open>response.json\<close>) either yields the
  parsed body or raises; the answer may depend on how many requests were made before.
  \<^verbatim>\<open>jwt.get_unverified_header\<close> and \<^verbatim>\<open>jwt.decode\<close> are taken as given functions;
  both return a dictionary or raise.
\<close>

record env =
  oidc_authority :: string
  oidc_audience :: string
  jwt_algorithm :: string
  jwks_cache_duration :: int
  development_mode :: bool
  http :: "nat \<Rightarrow> string \<Rightarrow> json option"
  jwt_get_unverified_header :: "string \<Rightarrow> exn + dict"
  jwt_decode :: "string \<Rightarrow> json \<Rightarrow> string list \<Rightarrow> string \<Rightarrow> string \<Rightarrow> exn + dict"

text \<open>The lines written to the logger, without their formatting.\<close>

datatype log_entry =
    OidcConfigLoaded         \<comment> \<open>info: OIDC configuration loaded successfully\<close>
  | OidcMockConfiguration    \<comment> \<open>warning: OIDC service unavailable in demo mode\<close>
  | OidcFetchFailed          \<comment> \<open>error: Failed to fetch OIDC configuration\<close>
  | JwksRefreshed            \<comment> \<open>info: JWKS refreshed successfully\<close>
  | JwksFetchFailed exn      \<comment> \<open>error: Failed to fetch JWKS\<close>
  | JwksUsingCached          \<comment> \<open>warning: Using cached JWKS due to fetch failure\<close>
  | CacheCleared             \<comment> \<open>info: OIDC and JWKS cache cleared\<close>
  | TokenValidated json      \<comment> \<open>debug: Token validated for user\<close>
  | JwtValidationFailed exn  \<comment> \<open>warning: JWT validation failed\<close>
  | TokenValidationError exn \<comment> \<open>error: Token validation error\<close>

text \<open>
  The three module-level caches, together with what the process has done so far: the
  URLs it has requested and the lines it has logged, oldest first. Timestamps are real
  numbers (seconds); the rounding of Python floats is not modelled.
\<close>

record state =
  oidc_config :: json
  jwks :: json
  jwks_last_updated :: "real option"
  requests :: "string list"
  logged :: "log_entry list"

definition initial_state :: state where
  "initial_state = \<lparr>oidc_config = JNull, jwks = JNull, jwks_last_updated = None,
     requests = [], logged = []\<rparr>"

definition write_log :: "log_entry \<Rightarrow> state \<Rightarrow> state" where
  "write_log l st = st\<lparr>logged := logged st @ [l]\<rparr>"

definition requests_get :: "env \<Rightarrow> string \<Rightarrow> state \<Rightarrow> json option \<times> state" where
  "requests_get env url st =
     (http env (length (requests st)) url, st\<lparr>requests := requests st @ [url]\<rparr>)"

definition service_unavailable :: exn where
  "service_unavailable = HTTPException 503 ''Authentication service unavailable'' None"

subsection \<open>get\_oidc\_configuration\<close>

definition discovery_url :: "env \<Rightarrow> string" where
  "discovery_url env = oidc_authority env @ ''/.well-known/openid_configuration''"

definition mock_oidc_configuration :: "env \<Rightarrow> json" where
  "mock_oidc_configuration env = JObj
     [(''issuer'', JStr (oidc_authority env)),
      (''authorization_endpoint'', JStr (oidc_authority env @ ''/auth'')),
      (''token_endpoint'', JStr (oidc_authority env @ ''/token'')),
      (''userinfo_endpoint'', JStr (oidc_authority env @ ''/userinfo'')),
      (''jwks_uri'', JStr (oidc_authority env @ ''/.well-known/jwks.json'')),
      (''scopes_supported'',
         JList [JStr ''openid'', JStr ''profile'', JStr ''email'', JStr ''bookverse:api'']),
      (''response_types_supported'', JList [JStr ''code'', JStr ''token'', JStr ''id_token'']),
      (''grant_types_supported'',
         JList [JStr ''authorization_code'', JStr ''implicit'', JStr ''refresh_token'']),
      (''subject_types_supported'', JList [JStr ''public'']),
      (''id_token_signing_alg_values_supported'', JList [JStr ''RS256'']),
      (''demo_mode'', JBool True)]"

definition get_oidc_configuration :: "env \<Rightarrow> state \<Rightarrow> (exn + json) \<times> state" where
  "get_oidc_configuration env st =
     (if oidc_config st = JNull then
        (case requests_get env (discovery_url env) st of
           (Some body, st1) \<Rightarrow>
             (Inr body, write_log OidcConfigLoaded (st1\<lparr>oidc_config := body\<rparr>))
         | (None, st1) \<Rightarrow>
             if development_mode env then
               (Inr (mock_oidc_configuration env),
                (write_log OidcMockConfiguration st1)
                  \<lparr>oidc_config := mock_oidc_configuration env\<rparr>)
             else (Inl service_unavailable, write_log OidcFetchFailed st1))
      else (Inr (oidc_config st), st))"

subsection \<open>get\_jwks\<close>

text \<open>The condition of the \<^verbatim>\<open>if\<close> that guards the refresh.\<close>

definition jwks_stale :: "env \<Rightarrow> real \<Rightarrow> state \<Rightarrow> bool" where
  "jwks_stale env current_time st =
     (jwks st = JNull \<or>
      (case jwks_last_updated st of
         None \<Rightarrow> True
       | Some t \<Rightarrow> current_time - t > real_of_int (jwks_cache_duration env)))"

text \<open>
  The body of the \<^verbatim>\<open>try\<close> up to and including \<^verbatim>\<open>response.json()\<close>. Reading
  \<^verbatim>\<open>jwks_uri\<close> from a configuration that is not a dictionary raises; a \<^verbatim>\<open>jwks_uri\<close>
  that is not a string makes \<^verbatim>\<open>requests.get\<close> raise before anything is sent.
\<close>

definition fetch_jwks :: "env \<Rightarrow> state \<Rightarrow> (exn + json) \<times> state" where
  "fetch_jwks env st =
     (case get_oidc_configuration env st of
        (Inl e, st1) \<Rightarrow> (Inl e, st1)
      | (Inr (JObj cfg), st1) \<Rightarrow>
          (let jwks_uri = py_get cfg ''jwks_uri'' in
           if \<not> truthy jwks_uri then (Inl (ValueError NoJwksUri), st1)
           else (case jwks_uri of
                   JStr url \<Rightarrow>
                     (case requests_get env url st1 of
                        (Some body, st2) \<Rightarrow> (Inr body, st2)
                      | (None, st2) \<Rightarrow> (Inl RequestException, st2))
                 | _ \<Rightarrow> (Inl RequestException, st1)))
      | (Inr _, st1) \<Rightarrow> (Inl AttributeError, st1))"

definition get_jwks :: "env \<Rightarrow> real \<Rightarrow> state \<Rightarrow> (exn + json) \<times> state" where
  "get_jwks env current_time st =
     (if jwks_stale env current_time st then
        (case fetch_jwks env st of
           (Inr body, st1) \<Rightarrow>
             (Inr body,
              write_log JwksRefreshed
                (st1\<lparr>jwks := body, jwks_last_updated := Some current_time\<rparr>))
         | (Inl e, st1) \<Rightarrow>
             (let st2 = write_log (JwksFetchFailed e) st1 in
              if jwks st2 = JNull then (Inl service_unavailable, st2)
              else (Inr (jwks st2), write_log JwksUsingCached st2)))
      else (Inr (jwks st), st))"

subsection \<open>get\_public\_key\<close>

text \<open>The \<^verbatim>\<open>for\<close> loop over the keys: an element that is not a dictionary has no
  \<^verbatim>\<open>get\<close>.\<close>

fun find_key :: "json \<Rightarrow> json list \<Rightarrow> exn + json" where
  "find_key kid [] = Inl (ValueError (NoMatchingKey kid))"
| "find_key kid (JObj k # ks) =
     (if py_eq (py_get k ''kid'') kid then Inr (JObj k) else find_key kid ks)"
| "find_key kid (_ # ks) = Inl AttributeError"

definition get_public_key :: "dict \<Rightarrow> json \<Rightarrow> exn + json" where
  "get_public_key token_header jwks_arg =
     (let kid = py_get token_header ''kid'' in
      if \<not> truthy kid then Inl (ValueError MissingKid)
      else (case jwks_arg of
              JObj d \<Rightarrow>
                (case py_iter (py_get_default d ''keys'' (JList [])) of
                   Inl e \<Rightarrow> Inl e
                 | Inr ks \<Rightarrow> find_key kid ks)
            | _ \<Rightarrow> Inl AttributeError))"

subsection \<open>clear\_cache\<close>

definition clear_cache :: "state \<Rightarrow> state" where
  "clear_cache st =
     write_log CacheCleared
       (st\<lparr>oidc_config := JNull, jwks := JNull, jwks_last_updated := None\<rparr>)"

section \<open>jwt\_auth.py\<close>

subsection \<open>AuthUser\<close>

record auth_user =
  claims :: dict
  user_id :: json
  email :: json
  name :: json
  roles :: json
  scopes :: "string list"

text \<open>
  \<^verbatim>\<open>claims.get("scope", "").split() if claims.get("scope") else []\<close>: a scope claim
  that is truthy but not a string has no \<^verbatim>\<open>split\<close>.
\<close>

definition scopes_of :: "dict \<Rightarrow> exn + string list" where
  "scopes_of token_claims =
     (if truthy (py_get token_claims ''scope'') then
        (case py_get_default token_claims ''scope'' (JStr []) of
           JStr s \<Rightarrow> Inr (py_split s)
         | _ \<Rightarrow> Inl AttributeError)
      else Inr [])"

definition AuthUser :: "dict \<Rightarrow> exn + auth_user" where
  "AuthUser token_claims =
     (case scopes_of token_claims of
        Inl e \<Rightarrow> Inl e
      | Inr ss \<Rightarrow>
          Inr \<lparr>claims = token_claims,
               user_id = py_get token_claims ''sub'',
               email = py_get token_claims ''email'',
               name = py_get_default token_claims ''name'' (py_get token_claims ''email''),
               roles = py_get_default token_claims ''roles'' (JList []),
               scopes = ss\<rparr>)"


definition create_mock_user :: "exn + auth_user" where
  "create_mock_user = AuthUser
     [(''sub'', JStr ''dev-user''),
      (''email'', JStr ''dev@bookverse.com''),
      (''name'', JStr ''Development User''),
      (''scope'', JStr ''openid profile email bookverse:api''),
      (''roles'', JList [JStr ''user'', JStr ''admin''])]"

subsection \<open>validate\_jwt\_token\<close>

definition www_authenticate :: "(string \<times> string) list option" where
  "www_authenticate = Some [(''WWW-Authenticate'', ''Bearer'')]"

definition invalid_token :: exn where
  "invalid_token = HTTPException 401 ''Invalid authentication token'' www_authenticate"

definition authentication_failed :: exn where
  "authentication_failed = HTTPException 401 ''Authentication failed'' www_authenticate"

text \<open>The body of the \<^verbatim>\<open>try\<close>: every exception leaves it with the state reached.\<close>

definition validate_body :: "env \<Rightarrow> real \<Rightarrow> string \<Rightarrow> state \<Rightarrow> (exn + auth_user) \<times> state" where
  "validate_body env current_time token st =
     (case jwt_get_unverified_header env token of
        Inl e \<Rightarrow> (Inl e, st)
      | Inr header \<Rightarrow>
     (case get_jwks env current_time st of
        (Inl e, st1) \<Rightarrow> (Inl e, st1)
      | (Inr ks, st1) \<Rightarrow>
     (case get_public_key header ks of
        Inl e \<Rightarrow> (Inl e, st1)
      | Inr public_key \<Rightarrow>
     (case jwt_decode env token public_key [jwt_algorithm env]
             (oidc_audience env) (oidc_authority env) of
        Inl e \<Rightarrow> (Inl e, st1)
      | Inr cl \<Rightarrow>
          if \<not> truthy (py_get cl ''sub'') then (Inl (ValueError MissingSub), st1)
          else (case scopes_of cl of
                  Inl e \<Rightarrow> (Inl e, st1)
                | Inr ss \<Rightarrow>
                    if ''bookverse:api'' \<notin> set ss then (Inl (ValueError MissingScope), st1)
                    else (let st2 = write_log
                                (TokenValidated
                                   (py_get_default cl ''email'' (py_get cl ''sub'')))
                                st1
                          in case AuthUser cl of
                               Inl e \<Rightarrow> (Inl e, st2)
                             | Inr u \<Rightarrow> (Inr u, st2)))))))"

text \<open>The two handlers: \<^verbatim>\<open>except JWTError\<close>, then \<^verbatim>\<open>except Exception\<close>.\<close>

definition validate_jwt_token ::
  "env \<Rightarrow> real \<Rightarrow> string \<Rightarrow> state \<Rightarrow> (exn + auth_user) \<times> state" where
  "validate_jwt_token env current_time token st =
     (case validate_body env current_time token st of
        (Inr u, st1) \<Rightarrow> (Inr u, st1)
      | (Inl JWTError, st1) \<Rightarrow> (Inl invalid_token, write_log (JwtValidationFailed JWTError) st1)
      | (Inl e, st1) \<Rightarrow> (Inl authentication_failed, write_log (TokenValidationError e) st1))"

section \<open>Repeated calls\<close>

text \<open>Calling \<^verbatim>\<open>get_oidc_configuration\<close> \<open>n\<close> times in a row, results oldest first.\<close>

fun get_oidc_configuration_times :: "env \<Rightarrow> nat \<Rightarrow> state \<Rightarrow> (exn + json) list \<times> state" where
  "get_oidc_configuration_times env 0 st = ([], st)"
| "get_oidc_configuration_times env (Suc n) st =
     (case get_oidc_configuration env st of
        (r, st1) \<Rightarrow>
          (case get_oidc_configuration_times env n st1 of
             (rs, st2) \<Rightarrow> (r # rs, st2)))"

definition discovery_requests :: "env \<Rightarrow> state \<Rightarrow> nat" where
  "discovery_requests env st = length (filter (\<lambda>u. u = discovery_url env) (requests st))"

section \<open>Scenarios\<close>

text \<open>
  Concrete collaborators for the scenarios of the specification: the default
  configuration of the two modules, an identity provider that publishes one key
  \<open>k1\<close>, and a JOSE library that knows a handful of tokens.
\<close>

definition example_key :: json where
  "example_key = JObj [(''kid'', JStr ''k1''), (''kty'', JStr ''RSA''), (''alg'', JStr ''RS256'')]"

definition example_jwks :: json where
  "example_jwks = JObj [(''keys'', JList [example_key])]"

definition example_header :: "string \<Rightarrow> exn + dict" where
  "example_header t =
     (if t = ''garbage'' then Inl JWTError
      else if t = ''token-k2'' then Inr [(''alg'', JStr ''RS256''), (''kid'', JStr ''k2'')]
      else if t = ''token-nokid'' then Inr [(''alg'', JStr ''RS256'')]
      else Inr [(''alg'', JStr ''RS256''), (''kid'', JStr ''k1'')])"

definition example_decode ::
  "string \<Rightarrow> json \<Rightarrow> string list \<Rightarrow> string \<Rightarrow> string \<Rightarrow> exn + dict" where
  "example_decode t key algs aud iss =
     (if t = ''token-u1'' then
        Inr [(''sub'', JStr ''u1''), (''aud'', JStr aud), (''iss'', JStr iss),
             (''scope'', JStr ''bookverse:api''), (''exp'', JInt 4102444800)]
      else if t = ''token-noscope'' then
        Inr [(''sub'', JStr ''u1''), (''aud'', JStr aud), (''iss'', JStr iss),
             (''scope'', JStr ''openid profile''), (''exp'', JInt 4102444800)]
      else if t = ''token-nosub'' then
        Inr [(''aud'', JStr aud), (''iss'', JStr iss),
             (''scope'', JStr ''bookverse:api''), (''exp'', JInt 4102444800)]
      else if t = ''token-badscope'' then
        Inr [(''sub'', JStr ''u1''), (''aud'', JStr aud), (''iss'', JStr iss),
             (''scope'', JList [JStr ''bookverse:api'']), (''exp'', JInt 4102444800)]
      else Inl JWTError)"

definition net_down :: "nat \<Rightarrow> string \<Rightarrow> json option" where
  "net_down n url = None"

definition net_serving :: "json \<Rightarrow> nat \<Rightarrow> string \<Rightarrow> json option" where
  "net_serving body n url =
     (if url = ''https://dev-auth.bookverse.com/.well-known/jwks.json'' then Some body
      else if url = ''https://dev-auth.bookverse.com/.well-known/openid_configuration'' then
        Some (JObj [(''issuer'', JStr ''https://dev-auth.bookverse.com''),
                    (''jwks_uri'', JStr ''https://dev-auth.bookverse.com/.well-known/jwks.json'')])
      else None)"

definition example_env :: "bool \<Rightarrow> (nat \<Rightarrow> string \<Rightarrow> json option) \<Rightarrow> env" where
  "example_env dev net =
     \<lparr>oidc_authority = ''https://dev-auth.bookverse.com'',
      oidc_audience = ''bookverse:api'',
      jwt_algorithm = ''RS256'',
      jwks_cache_duration = 3600,
      development_mode = dev,
      http = net,
      jwt_get_unverified_header = example_header,
      jwt_decode = example_decode\<rparr>"

text \<open>A process that fetched the key set \<open>ks\<close> at time \<open>t\<close>.\<close>

definition cached_state :: "json \<Rightarrow> real \<Rightarrow> state" where
  "cached_state ks t =
     \<lparr>oidc_config =
        JObj [(''issuer'', JStr ''https://dev-auth.bookverse.com''),
              (''jwks_uri'', JStr ''https://dev-auth.bookverse.com/.well-known/jwks.json'')],
      jwks = ks,
      jwks_last_updated = Some t,
      requests = [''https://dev-auth.bookverse.com/.well-known/openid_configuration'',
                  ''https://dev-auth.bookverse.com/.well-known/jwks.json''],
      logged = [OidcConfigLoaded, JwksRefreshed]\<rparr>"

section \<open>Key selection\<close>

lemma find_key_find:
  "find_key kid (map JObj ks) =
     (case find (\<lambda>k. py_eq (py_get k ''kid'') kid) ks of
        Some k \<Rightarrow> Inr (JObj k)
      | None \<Rightarrow> Inl (ValueError (NoMatchingKey kid)))"
  by (induction ks) simp_all

text \<open>
  C8, as stated, fails: a header that carries the empty string as its kid is rejected
  as having no kid, although the key set holds a key with that very kid.
\<close>

theorem get_public_key_empty_kid_counterexample:
  "map_of [(''alg'', JStr ''RS256''), (''kid'', JStr '''')] ''kid'' = Some (JStr '''') \<and>
   py_eq (py_get [(''kid'', JStr ''''), (''kty'', JStr ''RSA'')] ''kid'') (JStr '''') \<and>
   get_public_key [(''alg'', JStr ''RS256''), (''kid'', JStr '''')]
     (JObj [(''keys'', JList [JObj [(''kid'', JStr ''''), (''kty'', JStr ''RSA'')]])])
   = Inl (ValueError MissingKid)"
  by (simp add: get_public_key_def py_get_def py_get_default_def)

text \<open>
  C8, amended: \<open>get_public_key\<close> is a function of the header and the key set alone.
  On a key set whose \<open>keys\<close> are objects: if the header's kid is absent or falsy (the
  empty string among others) it fails with the missing-kid error; otherwise it returns
  the first key, in stored order, whose kid equals the header's kid, and fails with the
  no-matching-key error when there is none. No other key is ever returned.
\<close>

theorem get_public_key_selects:
  assumes "py_get_default d ''keys'' (JList []) = JList (map JObj ks)"
  shows "get_public_key h (JObj d) =
     (if \<not> truthy (py_get h ''kid'') then Inl (ValueError MissingKid)
      else case find (\<lambda>k. py_eq (py_get k ''kid'') (py_get h ''kid'')) ks of
             Some k \<Rightarrow> Inr (JObj k)
           | None \<Rightarrow> Inl (ValueError (NoMatchingKey (py_get h ''kid''))))"
  using assms by (simp add: get_public_key_def find_key_find Let_def)

theorem get_public_key_selects_witness:
  "get_public_key [(''alg'', JStr ''RS256''), (''kid'', JStr ''k2'')]
     (JObj [(''keys'', JList [JObj [(''kid'', JStr ''k1''), (''alg'', JStr ''RS256'')],
                              JObj [(''kid'', JStr ''k2''), (''n'', JInt 1)],
                              JObj [(''kid'', JStr ''k2''), (''n'', JInt 2)]])])
   = Inr (JObj [(''kid'', JStr ''k2''), (''n'', JInt 1)])"
  using get_public_key_selects
    [of "[(''keys'', JList [JObj [(''kid'', JStr ''k1''), (''alg'', JStr ''RS256'')],
                              JObj [(''kid'', JStr ''k2''), (''n'', JInt 1)],
                              JObj [(''kid'', JStr ''k2''), (''n'', JInt 2)]])]"
        "[[(''kid'', JStr ''k1''), (''alg'', JStr ''RS256'')],
          [(''kid'', JStr ''k2''), (''n'', JInt 1)],
          [(''kid'', JStr ''k2''), (''n'', JInt 2)]]"
        "[(''alg'', JStr ''RS256''), (''kid'', JStr ''k2'')]"]
  by (simp add: py_get_def py_get_default_def)

text \<open>
  C10: whatever the key set, a header whose kid is the empty string gets the missing-kid
  error, as a header with no kid at all does, and never the no-matching-key error.
\<close>

theorem empty_kid_is_missing_kid:
  "py_get token_header ''kid'' = JStr '''' \<or> map_of token_header ''kid'' = None \<Longrightarrow>
   get_public_key token_header ks = Inl (ValueError MissingKid)"
  by (auto simp add: get_public_key_def py_get_def py_get_default_def)

theorem empty_kid_is_missing_kid_witness:
  "get_public_key [(''kid'', JStr ''''), (''alg'', JStr ''RS256'')]
     (JObj [(''keys'', JList [JObj [(''kid'', JStr '''')]])]) = Inl (ValueError MissingKid) \<and>
   get_public_key [(''alg'', JStr ''RS256'')]
     (JObj [(''keys'', JList [JObj [(''kid'', JStr '''')]])]) = Inl (ValueError MissingKid)"
  using empty_kid_is_missing_kid
    [of "[(''kid'', JStr ''''), (''alg'', JStr ''RS256'')]"
        "JObj [(''keys'', JList [JObj [(''kid'', JStr '''')]])]"]
    empty_kid_is_missing_kid
    [of "[(''alg'', JStr ''RS256'')]"
        "JObj [(''keys'', JList [JObj [(''kid'', JStr '''')]])]"]
  by (simp add: py_get_def py_get_default_def)

section \<open>Discovery\<close>

lemma get_oidc_configuration_keeps_jwks:
  "jwks (snd (get_oidc_configuration env st)) = jwks st \<and>
   jwks_last_updated (snd (get_oidc_configuration env st)) = jwks_last_updated st"
  by (simp add: get_oidc_configuration_def requests_get_def write_log_def
      split: option.splits)

lemma get_oidc_configuration_log_grows:
  "\<exists>ls. logged (snd (get_oidc_configuration env st)) = logged st @ ls"
  by (simp add: get_oidc_configuration_def requests_get_def write_log_def
      split: option.splits)

lemma fetch_jwks_keeps_jwks:
  "jwks (snd (fetch_jwks env st)) = jwks st \<and>
   jwks_last_updated (snd (fetch_jwks env st)) = jwks_last_updated st"
proof -
  obtain r st1 where g: "get_oidc_configuration env st = (r, st1)"
    by (cases "get_oidc_configuration env st")
  have k: "jwks st1 = jwks st \<and> jwks_last_updated st1 = jwks_last_updated st"
    using get_oidc_configuration_keeps_jwks [of env st] g by simp
  show ?thesis
    using k
    by (simp add: fetch_jwks_def g requests_get_def Let_def
        split: sum.splits json.splits option.splits)
qed

lemma fetch_jwks_log_grows:
  "\<exists>ls. logged (snd (fetch_jwks env st)) = logged st @ ls"
proof -
  obtain r st1 where g: "get_oidc_configuration env st = (r, st1)"
    by (cases "get_oidc_configuration env st")
  obtain ls where k: "logged st1 = logged st @ ls"
    using get_oidc_configuration_log_grows [of env st] g by auto
  show ?thesis
    using k
    by (simp add: fetch_jwks_def g requests_get_def Let_def
        split: sum.splits json.splits option.splits)
qed

text \<open>
  C3: when the discovery request fails, \<open>get_oidc_configuration\<close> in development mode
  returns, without raising, a synthetic document whose issuer is the configured
  authority, with the standard endpoint paths under it and the demo-mode mark, and
  caches it; with development mode off it raises HTTP 503 (ServiceUnavailable) and
  leaves the cache empty, so no synthetic document is ever substituted.
\<close>

theorem discovery_unreachable:
  assumes "oidc_config st = JNull"
      and "http env (length (requests st)) (discovery_url env) = None"
  shows "(development_mode env \<longrightarrow>
            (\<exists>cfg st'. get_oidc_configuration env st = (Inr (JObj cfg), st') \<and>
               oidc_config st' = JObj cfg \<and>
               py_get cfg ''issuer'' = JStr (oidc_authority env) \<and>
               py_get cfg ''authorization_endpoint'' = JStr (oidc_authority env @ ''/auth'') \<and>
               py_get cfg ''token_endpoint'' = JStr (oidc_authority env @ ''/token'') \<and>
               py_get cfg ''userinfo_endpoint'' = JStr (oidc_authority env @ ''/userinfo'') \<and>
               py_get cfg ''jwks_uri'' = JStr (oidc_authority env @ ''/.well-known/jwks.json'') \<and>
               py_get cfg ''demo_mode'' = JBool True)) \<and>
         (\<not> development_mode env \<longrightarrow>
            (\<exists>st'. get_oidc_configuration env st =
                     (Inl (HTTPException 503 ''Authentication service unavailable'' None), st') \<and>
               oidc_config st' = JNull))"
  using assms
  by (simp add: get_oidc_configuration_def requests_get_def write_log_def
      mock_oidc_configuration_def service_unavailable_def py_get_def py_get_default_def)

theorem discovery_unreachable_witness:
  "(\<exists>cfg st'. get_oidc_configuration (example_env True net_down) initial_state
                 = (Inr (JObj cfg), st') \<and>
      py_get cfg ''issuer'' = JStr ''https://dev-auth.bookverse.com'' \<and>
      py_get cfg ''demo_mode'' = JBool True) \<and>
   (\<exists>st'. get_oidc_configuration (example_env False net_down) initial_state
             = (Inl (HTTPException 503 ''Authentication service unavailable'' None), st') \<and>
      oidc_config st' = JNull)"
  using discovery_unreachable [of initial_state "example_env True net_down"]
        discovery_unreachable [of initial_state "example_env False net_down"]
  by (auto simp add: initial_state_def example_env_def net_down_def discovery_url_def)

section \<open>The key set cache: stale serving\<close>

lemma get_jwks_fresh:
  "\<not> jwks_stale env now st \<Longrightarrow> get_jwks env now st = (Inr (jwks st), st)"
  by (simp add: get_jwks_def)

lemma get_jwks_failed:
  assumes "jwks_stale env now st" and "fst (fetch_jwks env st) = Inl e"
  shows "get_jwks env now st =
     (let st2 = write_log (JwksFetchFailed e) (snd (fetch_jwks env st)) in
      if jwks st = JNull then (Inl service_unavailable, st2)
      else (Inr (jwks st), write_log JwksUsingCached st2))"
proof -
  obtain r st1 where f: "fetch_jwks env st = (r, st1)"
    by (cases "fetch_jwks env st")
  have k: "jwks st1 = jwks st"
    using fetch_jwks_keeps_jwks [of env st] f by simp
  show ?thesis
    using assms k f by (simp add: get_jwks_def write_log_def Let_def)
qed

lemma get_jwks_fetched:
  assumes "jwks_stale env now st" and "fst (fetch_jwks env st) = Inr body"
  shows "get_jwks env now st =
     (Inr body,
      write_log JwksRefreshed
        ((snd (fetch_jwks env st))\<lparr>jwks := body, jwks_last_updated := Some now\<rparr>))"
proof -
  obtain r st1 where f: "fetch_jwks env st = (r, st1)"
    by (cases "fetch_jwks env st")
  show ?thesis
    using assms f by (simp add: get_jwks_def)
qed

text \<open>
  C4: if the refresh of \<open>get_jwks\<close> fails while a key set is cached, the call returns
  that prior set and leaves it in the cache; if no key set is cached, the call raises
  HTTP 503 (ServiceUnavailable).
\<close>

theorem refresh_failure_serves_stale:
  assumes "jwks_stale env now st" and "fst (fetch_jwks env st) = Inl e"
  shows "(jwks st \<noteq> JNull \<longrightarrow>
            fst (get_jwks env now st) = Inr (jwks st) \<and>
            jwks (snd (get_jwks env now st)) = jwks st) \<and>
         (jwks st = JNull \<longrightarrow>
            fst (get_jwks env now st) =
              Inl (HTTPException 503 ''Authentication service unavailable'' None))"
  using get_jwks_failed [OF assms] fetch_jwks_keeps_jwks [of env st]
  by (simp add: Let_def write_log_def service_unavailable_def)

lemma cached_fetch_down:
  "fst (fetch_jwks (example_env False net_down) (cached_state ks t)) = Inl RequestException"
  by (simp add: fetch_jwks_def get_oidc_configuration_def cached_state_def example_env_def
      net_down_def requests_get_def py_get_def py_get_default_def)

lemma initial_fetch_down:
  "fst (fetch_jwks (example_env False net_down) initial_state) = Inl service_unavailable"
  by (simp add: fetch_jwks_def get_oidc_configuration_def initial_state_def example_env_def
      net_down_def requests_get_def)

theorem refresh_failure_serves_stale_witness:
  "fst (get_jwks (example_env False net_down) 4000 (cached_state example_jwks 0))
     = Inr example_jwks \<and>
   fst (get_jwks (example_env False net_down) 4000 initial_state)
     = Inl (HTTPException 503 ''Authentication service unavailable'' None)"
proof -
  have s1: "jwks_stale (example_env False net_down) 4000 (cached_state example_jwks 0)"
    by (simp add: jwks_stale_def cached_state_def example_env_def)
  have s2: "jwks_stale (example_env False net_down) 4000 initial_state"
    by (simp add: jwks_stale_def initial_state_def)
  have n1: "jwks (cached_state example_jwks 0) \<noteq> JNull"
    by (simp add: cached_state_def example_jwks_def)
  have n2: "jwks initial_state = JNull"
    by (simp add: initial_state_def)
  show ?thesis
    using refresh_failure_serves_stale [OF s1 cached_fetch_down]
          refresh_failure_serves_stale [OF s2 initial_fetch_down] n1 n2
    by (simp add: cached_state_def)
qed

section \<open>The key set cache: replacement and refresh\<close>

text \<open>
  C5, as stated, fails: the cache holds the key \<open>k1\<close>, the cache duration has passed,
  and the JWKS endpoint answers with an empty key list; the refresh succeeds and the
  cache now holds the empty set.
\<close>

theorem refresh_stores_empty_key_set_counterexample:
  "jwks (cached_state example_jwks 0)
     = JObj [(''keys'', JList [JObj [(''kid'', JStr ''k1''), (''kty'', JStr ''RSA''),
                                     (''alg'', JStr ''RS256'')]])] \<and>
   fst (get_jwks (example_env False (net_serving (JObj [(''keys'', JList [])]))) 4000
          (cached_state example_jwks 0))
     = Inr (JObj [(''keys'', JList [])]) \<and>
   jwks (snd (get_jwks (example_env False (net_serving (JObj [(''keys'', JList [])]))) 4000
          (cached_state example_jwks 0)))
     = JObj [(''keys'', JList [])]"
  by (simp add: get_jwks_def jwks_stale_def fetch_jwks_def get_oidc_configuration_def
      cached_state_def example_env_def example_jwks_def example_key_def net_serving_def
      requests_get_def py_get_def py_get_default_def write_log_def)

text \<open>
  C5, amended: a call of \<open>get_jwks\<close> that needs no refresh, or whose refresh fails,
  leaves the cached key set as it was (a non-empty set stays non-empty); a refresh that
  succeeds replaces it by the body the JWKS endpoint returned, whatever that is.
\<close>

theorem jwks_cache_after_get_jwks:
  "jwks (snd (get_jwks env now st)) =
     (if jwks_stale env now st then
        (case fst (fetch_jwks env st) of Inr body \<Rightarrow> body | Inl e \<Rightarrow> jwks st)
      else jwks st)"
proof (cases "jwks_stale env now st")
  case False
  then show ?thesis by (simp add: get_jwks_fresh)
next
  case True
  show ?thesis
  proof (cases "fst (fetch_jwks env st)")
    case (Inl e)
    show ?thesis
      using get_jwks_failed [OF True Inl] fetch_jwks_keeps_jwks [of env st] True Inl
      by (simp add: Let_def write_log_def)
  next
    case (Inr body)
    show ?thesis
      using get_jwks_fetched [OF True Inr] True Inr
      by (simp add: write_log_def)
  qed
qed

theorem jwks_cache_after_get_jwks_witness:
  "jwks (snd (get_jwks (example_env False net_down) 4000 (cached_state example_jwks 0)))
     = example_jwks \<and>
   jwks (snd (get_jwks (example_env False net_down) 100 (cached_state example_jwks 0)))
     = example_jwks"
proof -
  have s1: "jwks_stale (example_env False net_down) 4000 (cached_state example_jwks 0)"
    by (simp add: jwks_stale_def cached_state_def example_env_def)
  have s2: "\<not> jwks_stale (example_env False net_down) 100 (cached_state example_jwks 0)"
    by (simp add: jwks_stale_def cached_state_def example_env_def example_jwks_def)
  have j: "jwks (cached_state example_jwks 0) = example_jwks"
    by (simp add: cached_state_def)
  show ?thesis
    using jwks_cache_after_get_jwks
            [of "example_env False net_down" 4000 "cached_state example_jwks 0"]
          jwks_cache_after_get_jwks
            [of "example_env False net_down" 100 "cached_state example_jwks 0"]
          cached_fetch_down [of example_jwks 0] s1 s2 j
    by simp
qed

lemma jwks_stale_iff:
  "jwks_stale env now st \<longleftrightarrow>
     (jwks st = JNull \<or> jwks_last_updated st = None \<or>
      (\<exists>t. jwks_last_updated st = Some t \<and> now - t > real_of_int (jwks_cache_duration env)))"
  by (auto simp add: jwks_stale_def split: option.splits)

lemma get_jwks_stale_logs:
  assumes "jwks_stale env now st"
  shows "length (logged st) < length (logged (snd (get_jwks env now st)))"
proof -
  obtain ls where l: "logged (snd (fetch_jwks env st)) = logged st @ ls"
    using fetch_jwks_log_grows [of env st] by auto
  show ?thesis
  proof (cases "fst (fetch_jwks env st)")
    case (Inl e)
    show ?thesis
      using get_jwks_failed [OF assms Inl] l by (simp add: Let_def write_log_def)
  next
    case (Inr body)
    show ?thesis
      using get_jwks_fetched [OF assms Inr] l by (simp add: write_log_def)
  qed
qed

lemma get_jwks_unchanged_iff:
  "get_jwks env now st = (Inr (jwks st), st) \<longleftrightarrow> \<not> jwks_stale env now st"
proof (cases "jwks_stale env now st")
  case False
  then show ?thesis by (simp add: get_jwks_fresh)
next
  case True
  have "snd (get_jwks env now st) \<noteq> st"
    using get_jwks_stale_logs [OF True] by auto
  then show ?thesis
    using True by (metis snd_conv)
qed

lemma get_oidc_configuration_requests:
  "requests (snd (get_oidc_configuration env st)) =
     requests st @ (if oidc_config st = JNull then [discovery_url env] else [])"
  by (simp add: get_oidc_configuration_def requests_get_def write_log_def
      split: option.splits)

lemma fetch_jwks_requests:
  "requests (snd (fetch_jwks env st)) =
     requests (snd (get_oidc_configuration env st)) @
     (case fst (get_oidc_configuration env st) of
        Inr (JObj cfg) \<Rightarrow>
          (case py_get cfg ''jwks_uri'' of
             JStr url \<Rightarrow> (if url = [] then [] else [url])
           | _ \<Rightarrow> [])
      | _ \<Rightarrow> [])"
proof -
  obtain r st1 where g: "get_oidc_configuration env st = (r, st1)"
    by (cases "get_oidc_configuration env st")
  show ?thesis
    by (simp add: fetch_jwks_def g requests_get_def Let_def
        split: sum.splits json.splits option.splits)
qed

lemma get_jwks_requests:
  "requests (snd (get_jwks env now st)) =
     (if jwks_stale env now st then requests (snd (fetch_jwks env st)) else requests st)"
proof (cases "jwks_stale env now st")
  case False
  then show ?thesis by (simp add: get_jwks_fresh)
next
  case True
  show ?thesis
  proof (cases "fst (fetch_jwks env st)")
    case (Inl e)
    show ?thesis
      using get_jwks_failed [OF True Inl] True by (simp add: Let_def write_log_def)
  next
    case (Inr body)
    show ?thesis
      using get_jwks_fetched [OF True Inr] True by (simp add: write_log_def)
  qed
qed

lemma get_jwks_stamp:
  assumes "jwks_stale env now st" and "fst (fetch_jwks env st) = Inr ks"
  shows "fst (get_jwks env now st) = Inr ks \<and>
         jwks (snd (get_jwks env now st)) = ks \<and>
         jwks_last_updated (snd (get_jwks env now st)) = Some now"
  using get_jwks_fetched [OF assms] by (simp add: write_log_def)

lemma get_jwks_no_stamp:
  assumes "jwks_stale env now st" and "fst (fetch_jwks env st) = Inl e"
  shows "jwks (snd (get_jwks env now st)) = jwks st \<and>
         jwks_last_updated (snd (get_jwks env now st)) = jwks_last_updated st"
  using get_jwks_failed [OF assms] fetch_jwks_keeps_jwks [of env st]
  by (simp add: Let_def write_log_def)

lemma get_jwks_second_call:
  assumes "jwks_stale env now st" and "fst (fetch_jwks env st) = Inr ks"
  shows "get_jwks env now' (snd (get_jwks env now st)) = (Inr ks, snd (get_jwks env now st))
           \<longleftrightarrow> ks \<noteq> JNull \<and> now' - now \<le> real_of_int (jwks_cache_duration env)"
proof -
  note s = get_jwks_stamp [OF assms]
  have "jwks_stale env now' (snd (get_jwks env now st)) \<longleftrightarrow>
          \<not> (ks \<noteq> JNull \<and> now' - now \<le> real_of_int (jwks_cache_duration env))"
    using s by (auto simp add: jwks_stale_def)
  then show ?thesis
    using get_jwks_unchanged_iff [of env now' "snd (get_jwks env now st)"] s by simp
qed

text \<open>
  C6, as stated, fails twice. When the JWKS endpoint answers with the body \<open>null\<close>,
  the fetch succeeds and returns, yet the call made immediately after it sends the JWKS
  request again. And when the cached provider configuration has no \<open>jwks_uri\<close>, a
  call with no key set cached sends no request at all.
\<close>

theorem get_jwks_refetch_counterexample:
  "fst (get_jwks (example_env False (net_serving JNull)) 1000 initial_state) = Inr JNull \<and>
   requests (snd (get_jwks (example_env False (net_serving JNull)) 1000 initial_state))
     = [''https://dev-auth.bookverse.com/.well-known/openid_configuration'',
        ''https://dev-auth.bookverse.com/.well-known/jwks.json''] \<and>
   requests (snd (get_jwks (example_env False (net_serving JNull)) 1000
       (snd (get_jwks (example_env False (net_serving JNull)) 1000 initial_state))))
     = [''https://dev-auth.bookverse.com/.well-known/openid_configuration'',
        ''https://dev-auth.bookverse.com/.well-known/jwks.json'',
        ''https://dev-auth.bookverse.com/.well-known/jwks.json''] \<and>
   jwks (initial_state
           \<lparr>oidc_config := JObj [(''issuer'', JStr ''https://dev-auth.bookverse.com'')]\<rparr>)
     = JNull \<and>
   requests (snd (get_jwks (example_env False (net_serving example_jwks)) 1000
       (initial_state
          \<lparr>oidc_config := JObj [(''issuer'', JStr ''https://dev-auth.bookverse.com'')]\<rparr>)))
     = []"
  by (simp add: get_jwks_def jwks_stale_def fetch_jwks_def get_oidc_configuration_def
      initial_state_def example_env_def net_serving_def discovery_url_def
      requests_get_def py_get_def py_get_default_def write_log_def)

text \<open>
  C6, amended: \<open>get_jwks\<close> returns the cached set and changes nothing, sending no
  request, exactly when a key set is cached and the time since its timestamp does not
  exceed the cache duration. Otherwise it attempts a refresh: it sends the discovery
  request when no provider configuration is cached, and then one request to the
  configuration's \<open>jwks_uri\<close> when that is a non-empty string. A refresh that succeeds
  stores the fetched body with the current time as its timestamp; one that fails leaves
  both as they were. So after a successful fetch a second call returns the fetched set
  untouched, with no request, exactly when that set is not \<open>null\<close> and the call comes
  within the cache duration of the fetch.
\<close>

theorem get_jwks_refreshes_iff_stale:
  "(jwks_stale env now st \<longleftrightarrow>
      (jwks st = JNull \<or> jwks_last_updated st = None \<or>
       (\<exists>t. jwks_last_updated st = Some t \<and>
            now - t > real_of_int (jwks_cache_duration env)))) \<and>
   (get_jwks env now st = (Inr (jwks st), st) \<longleftrightarrow> \<not> jwks_stale env now st) \<and>
   (requests (snd (get_jwks env now st)) \<noteq> requests st \<longrightarrow> jwks_stale env now st) \<and>
   (jwks_stale env now st \<longrightarrow>
      requests (snd (get_jwks env now st)) =
        requests st @
        (if oidc_config st = JNull then [discovery_url env] else []) @
        (case fst (get_oidc_configuration env st) of
           Inr (JObj cfg) \<Rightarrow>
             (case py_get cfg ''jwks_uri'' of
                JStr url \<Rightarrow> (if url = [] then [] else [url])
              | _ \<Rightarrow> [])
         | _ \<Rightarrow> [])) \<and>
   (jwks_stale env now st \<and> fst (fetch_jwks env st) = Inr ks \<longrightarrow>
      fst (get_jwks env now st) = Inr ks \<and>
      jwks (snd (get_jwks env now st)) = ks \<and>
      jwks_last_updated (snd (get_jwks env now st)) = Some now \<and>
      (get_jwks env now' (snd (get_jwks env now st)) = (Inr ks, snd (get_jwks env now st))
         \<longleftrightarrow> ks \<noteq> JNull \<and> now' - now \<le> real_of_int (jwks_cache_duration env))) \<and>
   (jwks_stale env now st \<and> fst (fetch_jwks env st) = Inl e \<longrightarrow>
      jwks (snd (get_jwks env now st)) = jwks st \<and>
      jwks_last_updated (snd (get_jwks env now st)) = jwks_last_updated st)"
proof -
  have a: "jwks_stale env now st \<longleftrightarrow>
      (jwks st = JNull \<or> jwks_last_updated st = None \<or>
       (\<exists>t. jwks_last_updated st = Some t \<and>
            now - t > real_of_int (jwks_cache_duration env)))"
    by (rule jwks_stale_iff)
  have b: "get_jwks env now st = (Inr (jwks st), st) \<longleftrightarrow> \<not> jwks_stale env now st"
    by (rule get_jwks_unchanged_iff)
  have c: "requests (snd (get_jwks env now st)) \<noteq> requests st \<longrightarrow> jwks_stale env now st"
    by (simp add: get_jwks_requests)
  have d: "jwks_stale env now st \<longrightarrow>
      requests (snd (get_jwks env now st)) =
        requests st @
        (if oidc_config st = JNull then [discovery_url env] else []) @
        (case fst (get_oidc_configuration env st) of
           Inr (JObj cfg) \<Rightarrow>
             (case py_get cfg ''jwks_uri'' of
                JStr url \<Rightarrow> (if url = [] then [] else [url])
              | _ \<Rightarrow> [])
         | _ \<Rightarrow> [])"
    by (simp add: get_jwks_requests fetch_jwks_requests get_oidc_configuration_requests)
  have e: "jwks_stale env now st \<and> fst (fetch_jwks env st) = Inr ks \<longrightarrow>
      fst (get_jwks env now st) = Inr ks \<and>
      jwks (snd (get_jwks env now st)) = ks \<and>
      jwks_last_updated (snd (get_jwks env now st)) = Some now \<and>
      (get_jwks env now' (snd (get_jwks env now st)) = (Inr ks, snd (get_jwks env now st))
         \<longleftrightarrow> ks \<noteq> JNull \<and> now' - now \<le> real_of_int (jwks_cache_duration env))"
    using get_jwks_stamp [of env now st ks] get_jwks_second_call [of env now st ks now']
    by blast
  have f: "jwks_stale env now st \<and> fst (fetch_jwks env st) = Inl e \<longrightarrow>
      jwks (snd (get_jwks env now st)) = jwks st \<and>
      jwks_last_updated (snd (get_jwks env now st)) = jwks_last_updated st"
    using get_jwks_no_stamp [of env now st e] by blast
  show ?thesis
    using a b c d e f by (intro conjI)
qed

lemma initial_fetch_serving:
  "fst (fetch_jwks (example_env False (net_serving body)) initial_state) = Inr body"
  by (simp add: fetch_jwks_def get_oidc_configuration_def initial_state_def example_env_def
      net_serving_def requests_get_def discovery_url_def write_log_def
      py_get_def py_get_default_def)

theorem get_jwks_refreshes_iff_stale_witness:
  "requests (snd (get_jwks (example_env False (net_serving example_jwks)) 1000 initial_state))
     = [''https://dev-auth.bookverse.com/.well-known/openid_configuration'',
        ''https://dev-auth.bookverse.com/.well-known/jwks.json''] \<and>
   fst (get_jwks (example_env False (net_serving example_jwks)) 1000 initial_state)
     = Inr example_jwks \<and>
   jwks_last_updated
     (snd (get_jwks (example_env False (net_serving example_jwks)) 1000 initial_state))
     = Some 1000 \<and>
   get_jwks (example_env False (net_serving example_jwks)) 1000
       (snd (get_jwks (example_env False (net_serving example_jwks)) 1000 initial_state))
     = (Inr example_jwks,
        snd (get_jwks (example_env False (net_serving example_jwks)) 1000 initial_state)) \<and>
   get_jwks (example_env False (net_serving example_jwks)) 4601
       (snd (get_jwks (example_env False (net_serving example_jwks)) 1000 initial_state))
     \<noteq> (Inr example_jwks,
        snd (get_jwks (example_env False (net_serving example_jwks)) 1000 initial_state)) \<and>
   get_jwks (example_env False net_down) 100 (cached_state example_jwks 0)
     = (Inr example_jwks, cached_state example_jwks 0) \<and>
   jwks_last_updated
     (snd (get_jwks (example_env False net_down) 4000 (cached_state example_jwks 0)))
     = Some 0"
proof -
  let ?E = "example_env False (net_serving example_jwks)"
  let ?D = "example_env False net_down"
  have s0: "jwks_stale ?E 1000 initial_state"
    by (simp add: jwks_stale_def initial_state_def)
  have i0: "oidc_config initial_state = JNull" "requests initial_state = []"
    by (simp_all add: initial_state_def)
  have g0: "fst (get_oidc_configuration ?E initial_state) =
      Inr (JObj [(''issuer'', JStr ''https://dev-auth.bookverse.com''),
                 (''jwks_uri'', JStr ''https://dev-auth.bookverse.com/.well-known/jwks.json'')])"
    by (simp add: get_oidc_configuration_def requests_get_def initial_state_def
        example_env_def net_serving_def discovery_url_def)
  have u0: "discovery_url ?E = ''https://dev-auth.bookverse.com/.well-known/openid_configuration''"
    by (simp add: discovery_url_def example_env_def)
  have k: "example_jwks \<noteq> JNull"
    by (simp add: example_jwks_def)
  have dE: "jwks_cache_duration ?E = 3600"
    by (simp add: example_env_def)
  have c1: "jwks (cached_state example_jwks 0) = example_jwks"
           "jwks_last_updated (cached_state example_jwks 0) = Some 0"
    by (simp_all add: cached_state_def)
  have dD: "jwks_cache_duration ?D = 3600"
    by (simp add: example_env_def)
  note t1 = get_jwks_refreshes_iff_stale
      [of ?E 1000 initial_state example_jwks 1000]
  note t2 = get_jwks_refreshes_iff_stale
      [of ?E 1000 initial_state example_jwks 4601]
  note t3 = get_jwks_refreshes_iff_stale [of ?D 100 "cached_state example_jwks 0"]
  note t4 = get_jwks_refreshes_iff_stale
      [of ?D 4000 "cached_state example_jwks 0" _ _ RequestException]
  have a: "requests (snd (get_jwks ?E 1000 initial_state))
     = [''https://dev-auth.bookverse.com/.well-known/openid_configuration'',
        ''https://dev-auth.bookverse.com/.well-known/jwks.json'']"
    using t1 s0 i0 g0 u0 by (simp add: py_get_def py_get_default_def)
  have b: "fst (get_jwks ?E 1000 initial_state) = Inr example_jwks \<and>
           jwks_last_updated (snd (get_jwks ?E 1000 initial_state)) = Some 1000 \<and>
           get_jwks ?E 1000 (snd (get_jwks ?E 1000 initial_state))
             = (Inr example_jwks, snd (get_jwks ?E 1000 initial_state))"
    using t1 s0 initial_fetch_serving [of example_jwks] k dE by simp
  have c: "get_jwks ?E 4601 (snd (get_jwks ?E 1000 initial_state))
             \<noteq> (Inr example_jwks, snd (get_jwks ?E 1000 initial_state))"
    using t2 s0 initial_fetch_serving [of example_jwks] k dE by simp
  have d: "get_jwks ?D 100 (cached_state example_jwks 0)
             = (Inr example_jwks, cached_state example_jwks 0)"
    using t3 c1 k dD by simp
  have s4: "jwks_stale ?D 4000 (cached_state example_jwks 0)"
    by (simp add: jwks_stale_def cached_state_def example_env_def)
  have e: "jwks_last_updated (snd (get_jwks ?D 4000 (cached_state example_jwks 0))) = Some 0"
    using t4 s4 cached_fetch_down [of example_jwks 0] c1 by simp
  show ?thesis
    using a b c d e by blast
qed

section \<open>Memoized discovery\<close>

lemma get_oidc_configuration_cached:
  "oidc_config st \<noteq> JNull \<Longrightarrow> get_oidc_configuration env st = (Inr (oidc_config st), st)"
  by (simp add: get_oidc_configuration_def)

lemma get_oidc_configuration_times_cached:
  "oidc_config st \<noteq> JNull \<Longrightarrow>
   get_oidc_configuration_times env n st = (replicate n (Inr (oidc_config st)), st)"
  by (induction n) (simp_all add: get_oidc_configuration_cached)

lemma get_oidc_configuration_first:
  assumes "oidc_config st = JNull"
  shows "requests (snd (get_oidc_configuration env st)) = requests st @ [discovery_url env] \<and>
         (\<forall>cfg. fst (get_oidc_configuration env st) = Inr cfg \<longrightarrow>
                oidc_config (snd (get_oidc_configuration env st)) = cfg) \<and>
         (\<forall>e. fst (get_oidc_configuration env st) = Inl e \<longrightarrow>
                oidc_config (snd (get_oidc_configuration env st)) = JNull)"
  using assms
  by (simp add: get_oidc_configuration_def requests_get_def write_log_def
      split: option.splits)

text \<open>
  C7, as stated, fails: with development mode off and the discovery endpoint down, two
  calls send two discovery requests, and both raise.
\<close>

theorem failed_discovery_not_memoized_counterexample:
  "fst (get_oidc_configuration_times (example_env False net_down) (Suc (Suc 0)) initial_state)
     = [Inl (HTTPException 503 ''Authentication service unavailable'' None),
        Inl (HTTPException 503 ''Authentication service unavailable'' None)] \<and>
   discovery_requests (example_env False net_down)
     (snd (get_oidc_configuration_times (example_env False net_down) (Suc (Suc 0))
             initial_state)) = 2"
  by (simp add: get_oidc_configuration_def requests_get_def write_log_def initial_state_def
      example_env_def net_down_def discovery_requests_def discovery_url_def
      service_unavailable_def)

text \<open>
  C7, amended: starting with an empty cache, once the first call of
  \<open>get_oidc_configuration\<close> has returned a document (fetched, or synthesised in
  development mode), any number of calls \<open>n + 1\<close> send exactly one discovery request
  and all return that document. A call that raises caches nothing.
\<close>

theorem get_oidc_configuration_memoized:
  assumes "oidc_config st = JNull"
  shows "(fst (get_oidc_configuration env st) = Inr cfg \<and> cfg \<noteq> JNull \<longrightarrow>
            fst (get_oidc_configuration_times env (Suc n) st) = replicate (Suc n) (Inr cfg) \<and>
            requests (snd (get_oidc_configuration_times env (Suc n) st))
              = requests st @ [discovery_url env] \<and>
            discovery_requests env (snd (get_oidc_configuration_times env (Suc n) st))
              = discovery_requests env st + 1) \<and>
         (fst (get_oidc_configuration env st) = Inl e \<longrightarrow>
            oidc_config (snd (get_oidc_configuration env st)) = JNull \<and>
            requests (snd (get_oidc_configuration env st)) = requests st @ [discovery_url env])"
proof -
  obtain r st1 where g: "get_oidc_configuration env st = (r, st1)"
    by (cases "get_oidc_configuration env st")
  note f = get_oidc_configuration_first [OF assms, of env]
  have req: "requests st1 = requests st @ [discovery_url env]"
    using f g by simp
  have ok: "fst (get_oidc_configuration_times env (Suc n) st) = replicate (Suc n) (Inr cfg) \<and>
            requests (snd (get_oidc_configuration_times env (Suc n) st))
              = requests st @ [discovery_url env] \<and>
            discovery_requests env (snd (get_oidc_configuration_times env (Suc n) st))
              = discovery_requests env st + 1"
    if h: "r = Inr cfg" "cfg \<noteq> JNull"
  proof -
    have c: "oidc_config st1 = cfg"
      using f g h by simp
    have t: "get_oidc_configuration_times env n st1 = (replicate n (Inr cfg), st1)"
      using get_oidc_configuration_times_cached [of st1 env n] c h by simp
    show ?thesis
      using g h t req by (simp add: discovery_requests_def)
  qed
  have bad: "oidc_config st1 = JNull" if "r = Inl e"
    using f g that by simp
  show ?thesis
    using ok bad req g by simp
qed

theorem get_oidc_configuration_memoized_witness:
  "fst (get_oidc_configuration_times (example_env True net_down) (Suc 2) initial_state)
     = replicate 3 (Inr (mock_oidc_configuration (example_env True net_down))) \<and>
   discovery_requests (example_env True net_down)
     (snd (get_oidc_configuration_times (example_env True net_down) (Suc 2) initial_state)) = 1 \<and>
   oidc_config (snd (get_oidc_configuration (example_env False net_down) initial_state)) = JNull"
proof -
  have i: "oidc_config initial_state = JNull"
    by (simp add: initial_state_def)
  have a: "fst (get_oidc_configuration (example_env True net_down) initial_state)
             = Inr (mock_oidc_configuration (example_env True net_down))"
    by (simp add: get_oidc_configuration_def requests_get_def initial_state_def
        example_env_def net_down_def)
  have b: "mock_oidc_configuration (example_env True net_down) \<noteq> JNull"
    by (simp add: mock_oidc_configuration_def)
  have c: "fst (get_oidc_configuration (example_env False net_down) initial_state)
             = Inl service_unavailable"
    by (simp add: get_oidc_configuration_def requests_get_def initial_state_def
        example_env_def net_down_def)
  have z: "discovery_requests (example_env True net_down) initial_state = 0"
    by (simp add: discovery_requests_def initial_state_def)
  show ?thesis
    using get_oidc_configuration_memoized [OF i, of "example_env True net_down"
            "mock_oidc_configuration (example_env True net_down)" 2]
          get_oidc_configuration_memoized [OF i, of "example_env False net_down" _ _
            service_unavailable]
          a b c z
    by (simp add: numeral_3_eq_3)
qed

section \<open>Token validation\<close>






text \<open>
  C2, as stated, fails: the cache is fresh and holds only \<open>k1\<close>; the provider already
  publishes \<open>k2\<close>; a token signed with \<open>k2\<close> is rejected without any request
  being sent and without the cache being touched.
\<close>

theorem validate_unknown_kid_counterexample:
  "fst (validate_jwt_token
          (example_env False
             (net_serving (JObj [(''keys'', JList [example_key, JObj [(''kid'', JStr ''k2'')]])])))
          100 ''token-k2'' (cached_state example_jwks 0))
     = Inl (HTTPException 401 ''Authentication failed''
              (Some [(''WWW-Authenticate'', ''Bearer'')])) \<and>
   requests (snd (validate_jwt_token
          (example_env False
             (net_serving (JObj [(''keys'', JList [example_key, JObj [(''kid'', JStr ''k2'')]])])))
          100 ''token-k2'' (cached_state example_jwks 0)))
     = requests (cached_state example_jwks 0) \<and>
   jwks (snd (validate_jwt_token
          (example_env False
             (net_serving (JObj [(''keys'', JList [example_key, JObj [(''kid'', JStr ''k2'')]])])))
          100 ''token-k2'' (cached_state example_jwks 0)))
     = example_jwks"
  by (simp add: validate_jwt_token_def validate_body_def get_jwks_def jwks_stale_def
      cached_state_def example_env_def example_header_def example_jwks_def example_key_def
      get_public_key_def py_get_def py_get_default_def write_log_def
      authentication_failed_def www_authenticate_def)

text \<open>
  C2, amended: a token whose kid is absent from the key set that the single call of
  \<open>get_jwks\<close> returned is rejected with HTTP 401 "Authentication failed". The caches
  and the requests sent are exactly those of that one call: nothing is cleared, nothing
  is fetched again, and with a fresh cache nothing is sent at all.
\<close>

theorem validate_unknown_kid_no_retry:
  assumes "jwt_get_unverified_header env token = Inr header"
      and "fst (get_jwks env now st) = Inr ks"
      and "get_public_key header ks = Inl (ValueError (NoMatchingKey kid))"
  shows "fst (validate_jwt_token env now token st)
           = Inl (HTTPException 401 ''Authentication failed''
                    (Some [(''WWW-Authenticate'', ''Bearer'')])) \<and>
         snd (validate_jwt_token env now token st)
           = write_log (TokenValidationError (ValueError (NoMatchingKey kid)))
               (snd (get_jwks env now st)) \<and>
         requests (snd (validate_jwt_token env now token st))
           = requests (snd (get_jwks env now st)) \<and>
         jwks (snd (validate_jwt_token env now token st)) = jwks (snd (get_jwks env now st)) \<and>
         oidc_config (snd (validate_jwt_token env now token st))
           = oidc_config (snd (get_jwks env now st)) \<and>
         (\<not> jwks_stale env now st \<longrightarrow>
            requests (snd (validate_jwt_token env now token st)) = requests st)"
proof -
  obtain r st1 where g: "get_jwks env now st = (r, st1)"
    by (cases "get_jwks env now st")
  have r: "r = Inr ks"
    using assms(2) g by simp
  have v: "validate_jwt_token env now token st =
      (Inl authentication_failed,
       write_log (TokenValidationError (ValueError (NoMatchingKey kid))) st1)"
    using assms(1,3) g r by (simp add: validate_jwt_token_def validate_body_def)
  have f: "\<not> jwks_stale env now st \<longrightarrow> st1 = st"
    using get_jwks_fresh [of env now st] g by auto
  show ?thesis
    using v g f
    by (auto simp add: write_log_def authentication_failed_def www_authenticate_def)
qed

theorem validate_unknown_kid_no_retry_witness:
  "fst (validate_jwt_token (example_env False net_down) 100 ''token-k2''
          (cached_state example_jwks 0))
     = Inl (HTTPException 401 ''Authentication failed''
              (Some [(''WWW-Authenticate'', ''Bearer'')])) \<and>
   requests (snd (validate_jwt_token (example_env False net_down) 100 ''token-k2''
          (cached_state example_jwks 0)))
     = requests (cached_state example_jwks 0)"
proof -
  have h: "jwt_get_unverified_header (example_env False net_down) ''token-k2''
             = Inr [(''alg'', JStr ''RS256''), (''kid'', JStr ''k2'')]"
    by (simp add: example_env_def example_header_def)
  have s: "\<not> jwks_stale (example_env False net_down) 100 (cached_state example_jwks 0)"
    by (simp add: jwks_stale_def cached_state_def example_env_def example_jwks_def)
  have g: "fst (get_jwks (example_env False net_down) 100 (cached_state example_jwks 0))
             = Inr example_jwks"
    using get_jwks_fresh [OF s] by (simp add: cached_state_def)
  have k: "get_public_key [(''alg'', JStr ''RS256''), (''kid'', JStr ''k2'')] example_jwks
             = Inl (ValueError (NoMatchingKey (JStr ''k2'')))"
    by (simp add: get_public_key_def example_jwks_def example_key_def py_get_def
        py_get_default_def)
  show ?thesis
    using validate_unknown_kid_no_retry [OF h g k] s get_jwks_fresh [OF s]
    by (simp add: write_log_def)
qed

text \<open>
  C9, as stated, fails: a token without the required scope, a token without \<open>sub\<close>
  and a token with an unknown kid all raise the very same exception.
\<close>

theorem missing_scope_same_error_counterexample:
  "fst (validate_jwt_token (example_env False net_down) 100 ''token-noscope''
          (cached_state example_jwks 0))
     = Inl (HTTPException 401 ''Authentication failed''
              (Some [(''WWW-Authenticate'', ''Bearer'')])) \<and>
   fst (validate_jwt_token (example_env False net_down) 100 ''token-nosub''
          (cached_state example_jwks 0))
     = Inl (HTTPException 401 ''Authentication failed''
              (Some [(''WWW-Authenticate'', ''Bearer'')])) \<and>
   fst (validate_jwt_token (example_env False net_down) 100 ''token-k2''
          (cached_state example_jwks 0))
     = Inl (HTTPException 401 ''Authentication failed''
              (Some [(''WWW-Authenticate'', ''Bearer'')]))"
  by (simp add: validate_jwt_token_def validate_body_def get_jwks_def jwks_stale_def
      cached_state_def example_env_def example_header_def example_decode_def
      example_jwks_def example_key_def
      get_public_key_def py_get_def py_get_default_def write_log_def scopes_of_def
      py_split_def is_space_def
      authentication_failed_def www_authenticate_def)

lemma validate_jwt_token_handlers:
  "fst (validate_jwt_token env now token st) =
     (case fst (validate_body env now token st) of
        Inr u \<Rightarrow> Inr u
      | Inl e \<Rightarrow> Inl (if e = JWTError then invalid_token else authentication_failed))"
  by (cases "validate_body env now token st")
     (auto simp add: validate_jwt_token_def split: sum.splits exn.splits)

lemma get_jwks_raises_503:
  "fst (get_jwks env now st) = Inl e \<Longrightarrow> e = service_unavailable"
  by (cases "fetch_jwks env st")
     (auto simp add: get_jwks_def Let_def split: if_splits sum.splits)

lemma find_key_not_JWTError: "find_key kid ks \<noteq> Inl JWTError"
  by (induction kid ks rule: find_key.induct) simp_all

lemma py_iter_not_JWTError: "py_iter v \<noteq> Inl JWTError"
  by (cases v) simp_all

lemma get_public_key_not_JWTError: "get_public_key header ks \<noteq> Inl JWTError"
  using find_key_not_JWTError py_iter_not_JWTError
  by (auto simp add: get_public_key_def Let_def split: json.splits sum.splits)

lemma scopes_of_not_JWTError: "scopes_of cl \<noteq> Inl JWTError"
  by (simp add: scopes_of_def split: json.splits)

lemma validate_body_header_error:
  "jwt_get_unverified_header env token = Inl e \<Longrightarrow>
   fst (validate_body env now token st) = Inl e"
  by (simp add: validate_body_def)

lemma validate_body_jwks_error:
  assumes "jwt_get_unverified_header env token = Inr header"
      and "fst (get_jwks env now st) = Inl e"
  shows "fst (validate_body env now token st) = Inl e"
  using assms by (cases "get_jwks env now st") (simp add: validate_body_def)

lemma validate_body_key_error:
  assumes "jwt_get_unverified_header env token = Inr header"
      and "fst (get_jwks env now st) = Inr ks"
      and "get_public_key header ks = Inl e"
  shows "fst (validate_body env now token st) = Inl e"
  using assms by (cases "get_jwks env now st") (simp add: validate_body_def)

lemma validate_body_decode_error:
  assumes "jwt_get_unverified_header env token = Inr header"
      and "fst (get_jwks env now st) = Inr ks"
      and "get_public_key header ks = Inr key"
      and "jwt_decode env token key [jwt_algorithm env] (oidc_audience env) (oidc_authority env)
             = Inl e"
  shows "fst (validate_body env now token st) = Inl e"
  using assms by (cases "get_jwks env now st") (simp add: validate_body_def)

lemma validate_body_claims:
  assumes "jwt_get_unverified_header env token = Inr header"
      and "fst (get_jwks env now st) = Inr ks"
      and "get_public_key header ks = Inr key"
      and "jwt_decode env token key [jwt_algorithm env] (oidc_audience env) (oidc_authority env)
             = Inr cl"
  shows "(\<not> truthy (py_get cl ''sub'') \<longrightarrow>
            fst (validate_body env now token st) = Inl (ValueError MissingSub)) \<and>
         (truthy (py_get cl ''sub'') \<and> scopes_of cl = Inl e \<longrightarrow>
            fst (validate_body env now token st) = Inl e) \<and>
         (truthy (py_get cl ''sub'') \<and> scopes_of cl = Inr ss \<and> ''bookverse:api'' \<notin> set ss \<longrightarrow>
            validate_body env now token st
              = (Inl (ValueError MissingScope), snd (get_jwks env now st)))"
  using assms by (cases "get_jwks env now st") (simp add: validate_body_def)

text \<open>
  C9, amended: a token that passes every other check but whose scope claim does not
  contain \<open>bookverse:api\<close> is rejected with HTTP 401 "Authentication failed", and the
  missing scope is named only in the line written to the error log. The very same
  exception is raised for a missing \<open>sub\<close>, for a failed key selection (missing kid,
  unknown key), for an unavailable key set, for a scope claim that is not a string, and
  for any exception of the header parse or of \<open>jwt.decode\<close> that is not a
  \<open>JWTError\<close>. Only a \<open>JWTError\<close> of the header parse or of \<open>jwt.decode\<close> gives
  another exception, HTTP 401 "Invalid authentication token".
\<close>

theorem validate_missing_scope:
  "(jwt_get_unverified_header env token = Inr header \<and>
    fst (get_jwks env now st) = Inr ks \<and>
    get_public_key header ks = Inr key \<and>
    jwt_decode env token key [jwt_algorithm env] (oidc_audience env) (oidc_authority env)
      = Inr cl \<and>
    truthy (py_get cl ''sub'') \<and> scopes_of cl = Inr ss \<and> ''bookverse:api'' \<notin> set ss \<longrightarrow>
      fst (validate_jwt_token env now token st)
        = Inl (HTTPException 401 ''Authentication failed''
                 (Some [(''WWW-Authenticate'', ''Bearer'')])) \<and>
      logged (snd (validate_jwt_token env now token st))
        = logged (snd (get_jwks env now st))
            @ [TokenValidationError (ValueError MissingScope)]) \<and>
   (jwt_get_unverified_header env token = Inr header \<and>
    fst (get_jwks env now st) = Inr ks \<and>
    get_public_key header ks = Inr key \<and>
    jwt_decode env token key [jwt_algorithm env] (oidc_audience env) (oidc_authority env)
      = Inr cl \<and>
    \<not> truthy (py_get cl ''sub'') \<longrightarrow>
      fst (validate_jwt_token env now token st)
        = Inl (HTTPException 401 ''Authentication failed''
                 (Some [(''WWW-Authenticate'', ''Bearer'')]))) \<and>
   (jwt_get_unverified_header env token = Inr header \<and>
    fst (get_jwks env now st) = Inr ks \<and>
    get_public_key header ks = Inr key \<and>
    jwt_decode env token key [jwt_algorithm env] (oidc_audience env) (oidc_authority env)
      = Inr cl \<and>
    truthy (py_get cl ''sub'') \<and> scopes_of cl = Inl e \<longrightarrow>
      fst (validate_jwt_token env now token st)
        = Inl (HTTPException 401 ''Authentication failed''
                 (Some [(''WWW-Authenticate'', ''Bearer'')]))) \<and>
   (jwt_get_unverified_header env token = Inr header \<and>
    fst (get_jwks env now st) = Inr ks \<and>
    get_public_key header ks = Inl e \<longrightarrow>
      fst (validate_jwt_token env now token st)
        = Inl (HTTPException 401 ''Authentication failed''
                 (Some [(''WWW-Authenticate'', ''Bearer'')]))) \<and>
   (jwt_get_unverified_header env token = Inr header \<and>
    fst (get_jwks env now st) = Inl e \<longrightarrow>
      fst (validate_jwt_token env now token st)
        = Inl (HTTPException 401 ''Authentication failed''
                 (Some [(''WWW-Authenticate'', ''Bearer'')]))) \<and>
   (jwt_get_unverified_header env token = Inl e \<longrightarrow>
      fst (validate_jwt_token env now token st)
        = Inl (HTTPException 401
                 (if e = JWTError then ''Invalid authentication token''
                  else ''Authentication failed'')
                 (Some [(''WWW-Authenticate'', ''Bearer'')]))) \<and>
   (jwt_get_unverified_header env token = Inr header \<and>
    fst (get_jwks env now st) = Inr ks \<and>
    get_public_key header ks = Inr key \<and>
    jwt_decode env token key [jwt_algorithm env] (oidc_audience env) (oidc_authority env)
      = Inl e \<longrightarrow>
      fst (validate_jwt_token env now token st)
        = Inl (HTTPException 401
                 (if e = JWTError then ''Invalid authentication token''
                  else ''Authentication failed'')
                 (Some [(''WWW-Authenticate'', ''Bearer'')])))"
proof -
  note h = validate_jwt_token_handlers [of env now token st]
  note d = authentication_failed_def invalid_token_def www_authenticate_def
  have c1: "jwt_get_unverified_header env token = Inr header \<and>
    fst (get_jwks env now st) = Inr ks \<and>
    get_public_key header ks = Inr key \<and>
    jwt_decode env token key [jwt_algorithm env] (oidc_audience env) (oidc_authority env)
      = Inr cl \<and>
    truthy (py_get cl ''sub'') \<and> scopes_of cl = Inr ss \<and> ''bookverse:api'' \<notin> set ss \<longrightarrow>
      fst (validate_jwt_token env now token st)
        = Inl (HTTPException 401 ''Authentication failed''
                 (Some [(''WWW-Authenticate'', ''Bearer'')])) \<and>
      logged (snd (validate_jwt_token env now token st))
        = logged (snd (get_jwks env now st))
            @ [TokenValidationError (ValueError MissingScope)]"
    using validate_body_claims [of env token header now st ks key cl e ss]
    by (auto simp add: validate_jwt_token_def write_log_def d)
  have c2: "jwt_get_unverified_header env token = Inr header \<and>
    fst (get_jwks env now st) = Inr ks \<and>
    get_public_key header ks = Inr key \<and>
    jwt_decode env token key [jwt_algorithm env] (oidc_audience env) (oidc_authority env)
      = Inr cl \<and>
    \<not> truthy (py_get cl ''sub'') \<longrightarrow>
      fst (validate_jwt_token env now token st)
        = Inl (HTTPException 401 ''Authentication failed''
                 (Some [(''WWW-Authenticate'', ''Bearer'')]))"
    using validate_body_claims [of env token header now st ks key cl e ss] h
    by (auto simp add: d)
  have c3: "jwt_get_unverified_header env token = Inr header \<and>
    fst (get_jwks env now st) = Inr ks \<and>
    get_public_key header ks = Inr key \<and>
    jwt_decode env token key [jwt_algorithm env] (oidc_audience env) (oidc_authority env)
      = Inr cl \<and>
    truthy (py_get cl ''sub'') \<and> scopes_of cl = Inl e \<longrightarrow>
      fst (validate_jwt_token env now token st)
        = Inl (HTTPException 401 ''Authentication failed''
                 (Some [(''WWW-Authenticate'', ''Bearer'')]))"
    using validate_body_claims [of env token header now st ks key cl e ss] h
          scopes_of_not_JWTError [of cl]
    by (auto simp add: d)
  have c4: "jwt_get_unverified_header env token = Inr header \<and>
    fst (get_jwks env now st) = Inr ks \<and>
    get_public_key header ks = Inl e \<longrightarrow>
      fst (validate_jwt_token env now token st)
        = Inl (HTTPException 401 ''Authentication failed''
                 (Some [(''WWW-Authenticate'', ''Bearer'')]))"
    using validate_body_key_error [of env token header now st ks e] h
          get_public_key_not_JWTError [of header ks]
    by (auto simp add: d)
  have c5: "jwt_get_unverified_header env token = Inr header \<and>
    fst (get_jwks env now st) = Inl e \<longrightarrow>
      fst (validate_jwt_token env now token st)
        = Inl (HTTPException 401 ''Authentication failed''
                 (Some [(''WWW-Authenticate'', ''Bearer'')]))"
    using validate_body_jwks_error [of env token header now st e] h
          get_jwks_raises_503 [of env now st e]
    by (auto simp add: d service_unavailable_def)
  have c6: "jwt_get_unverified_header env token = Inl e \<longrightarrow>
      fst (validate_jwt_token env now token st)
        = Inl (HTTPException 401
                 (if e = JWTError then ''Invalid authentication token''
                  else ''Authentication failed'')
                 (Some [(''WWW-Authenticate'', ''Bearer'')]))"
    using validate_body_header_error [of env token e now st] h
    by (auto simp add: d)
  have c7: "jwt_get_unverified_header env token = Inr header \<and>
    fst (get_jwks env now st) = Inr ks \<and>
    get_public_key header ks = Inr key \<and>
    jwt_decode env token key [jwt_algorithm env] (oidc_audience env) (oidc_authority env)
      = Inl e \<longrightarrow>
      fst (validate_jwt_token env now token st)
        = Inl (HTTPException 401
                 (if e = JWTError then ''Invalid authentication token''
                  else ''Authentication failed'')
                 (Some [(''WWW-Authenticate'', ''Bearer'')]))"
    using validate_body_decode_error [of env token header now st ks key e] h
    by (auto simp add: d)
  show ?thesis
    using c1 c2 c3 c4 c5 c6 c7 by (intro conjI)
qed

lemma cached_get_jwks:
  "fst (get_jwks (example_env False net_down) 100 (cached_state example_jwks 0))
     = Inr example_jwks"
proof -
  have "\<not> jwks_stale (example_env False net_down) 100 (cached_state example_jwks 0)"
    by (simp add: jwks_stale_def cached_state_def example_env_def example_jwks_def)
  then show ?thesis
    using get_jwks_fresh [of "example_env False net_down" 100 "cached_state example_jwks 0"]
    by (simp add: cached_state_def)
qed

lemma example_select_k1:
  "get_public_key [(''alg'', JStr ''RS256''), (''kid'', JStr ''k1'')] example_jwks
     = Inr example_key"
  by (simp add: get_public_key_def example_jwks_def example_key_def py_get_def
      py_get_default_def)

theorem validate_missing_scope_witness:
  "fst (validate_jwt_token (example_env False net_down) 100 ''token-noscope''
          (cached_state example_jwks 0))
     = Inl (HTTPException 401 ''Authentication failed''
              (Some [(''WWW-Authenticate'', ''Bearer'')])) \<and>
   fst (validate_jwt_token (example_env False net_down) 100 ''token-nosub''
          (cached_state example_jwks 0))
     = Inl (HTTPException 401 ''Authentication failed''
              (Some [(''WWW-Authenticate'', ''Bearer'')])) \<and>
   fst (validate_jwt_token (example_env False net_down) 100 ''token-badscope''
          (cached_state example_jwks 0))
     = Inl (HTTPException 401 ''Authentication failed''
              (Some [(''WWW-Authenticate'', ''Bearer'')])) \<and>
   fst (validate_jwt_token (example_env False net_down) 100 ''token-nokid''
          (cached_state example_jwks 0))
     = Inl (HTTPException 401 ''Authentication failed''
              (Some [(''WWW-Authenticate'', ''Bearer'')])) \<and>
   fst (validate_jwt_token (example_env False net_down) 100 ''token-u1'' initial_state)
     = Inl (HTTPException 401 ''Authentication failed''
              (Some [(''WWW-Authenticate'', ''Bearer'')])) \<and>
   fst (validate_jwt_token (example_env False net_down) 100 ''garbage''
          (cached_state example_jwks 0))
     = Inl (HTTPException 401 ''Invalid authentication token''
              (Some [(''WWW-Authenticate'', ''Bearer'')])) \<and>
   fst (validate_jwt_token (example_env False net_down) 100 ''token-expired''
          (cached_state example_jwks 0))
     = Inl (HTTPException 401 ''Invalid authentication token''
              (Some [(''WWW-Authenticate'', ''Bearer'')]))"
proof -
  let ?D = "example_env False net_down"
  let ?S = "cached_state example_jwks 0"
  let ?h1 = "[(''alg'', JStr ''RS256''), (''kid'', JStr ''k1'')]"
  let ?noscope = "[(''sub'', JStr ''u1''), (''aud'', JStr ''bookverse:api''),
              (''iss'', JStr ''https://dev-auth.bookverse.com''),
              (''scope'', JStr ''openid profile''), (''exp'', JInt 4102444800)]"
  let ?nosub = "[(''aud'', JStr ''bookverse:api''),
              (''iss'', JStr ''https://dev-auth.bookverse.com''),
              (''scope'', JStr ''bookverse:api''), (''exp'', JInt 4102444800)]"
  let ?badscope = "[(''sub'', JStr ''u1''), (''aud'', JStr ''bookverse:api''),
              (''iss'', JStr ''https://dev-auth.bookverse.com''),
              (''scope'', JList [JStr ''bookverse:api'']), (''exp'', JInt 4102444800)]"
  have hd: "jwt_get_unverified_header ?D ''token-noscope'' = Inr ?h1"
           "jwt_get_unverified_header ?D ''token-nosub'' = Inr ?h1"
           "jwt_get_unverified_header ?D ''token-badscope'' = Inr ?h1"
           "jwt_get_unverified_header ?D ''token-expired'' = Inr ?h1"
           "jwt_get_unverified_header ?D ''token-u1'' = Inr ?h1"
           "jwt_get_unverified_header ?D ''token-nokid'' = Inr [(''alg'', JStr ''RS256'')]"
           "jwt_get_unverified_header ?D ''garbage'' = Inl JWTError"
    by (simp_all add: example_env_def example_header_def)
  have dc: "jwt_decode ?D ''token-noscope'' example_key [jwt_algorithm ?D]
              (oidc_audience ?D) (oidc_authority ?D) = Inr ?noscope"
           "jwt_decode ?D ''token-nosub'' example_key [jwt_algorithm ?D]
              (oidc_audience ?D) (oidc_authority ?D) = Inr ?nosub"
           "jwt_decode ?D ''token-badscope'' example_key [jwt_algorithm ?D]
              (oidc_audience ?D) (oidc_authority ?D) = Inr ?badscope"
           "jwt_decode ?D ''token-expired'' example_key [jwt_algorithm ?D]
              (oidc_audience ?D) (oidc_authority ?D) = Inl JWTError"
    by (simp_all add: example_env_def example_decode_def)
  have sub: "truthy (py_get ?noscope ''sub'')" "\<not> truthy (py_get ?nosub ''sub'')"
            "truthy (py_get ?badscope ''sub'')"
    by (simp_all add: py_get_def py_get_default_def)
  have sc: "scopes_of ?noscope = Inr [''openid'', ''profile'']"
           "scopes_of ?badscope = Inl AttributeError"
    by (simp_all add: scopes_of_def py_get_def py_get_default_def py_split_def is_space_def)
  have m: "''bookverse:api'' \<notin> set [''openid'', ''profile'']"
    by simp
  have nk: "get_public_key [(''alg'', JStr ''RS256'')] example_jwks
              = Inl (ValueError MissingKid)"
    by (simp add: get_public_key_def py_get_def py_get_default_def)
  have dn: "fst (get_jwks ?D 100 initial_state) = Inl service_unavailable"
    by (simp add: get_jwks_def jwks_stale_def fetch_jwks_def get_oidc_configuration_def
        initial_state_def example_env_def net_down_def requests_get_def write_log_def)
  note g = cached_get_jwks
  note k = example_select_k1
  have w1: "fst (validate_jwt_token ?D 100 ''token-noscope'' ?S)
     = Inl (HTTPException 401 ''Authentication failed''
              (Some [(''WWW-Authenticate'', ''Bearer'')]))"
    using validate_missing_scope
            [of ?D "''token-noscope''" ?h1 100 ?S example_jwks example_key ?noscope
                "[''openid'', ''profile'']"]
          hd(1) g k dc(1) sub(1) sc(1) m by blast
  have w2: "fst (validate_jwt_token ?D 100 ''token-nosub'' ?S)
     = Inl (HTTPException 401 ''Authentication failed''
              (Some [(''WWW-Authenticate'', ''Bearer'')]))"
    using validate_missing_scope
            [of ?D "''token-nosub''" ?h1 100 ?S example_jwks example_key ?nosub]
          hd(2) g k dc(2) sub(2) by blast
  have w3: "fst (validate_jwt_token ?D 100 ''token-badscope'' ?S)
     = Inl (HTTPException 401 ''Authentication failed''
              (Some [(''WWW-Authenticate'', ''Bearer'')]))"
    using validate_missing_scope
            [of ?D "''token-badscope''" ?h1 100 ?S example_jwks example_key ?badscope _
                AttributeError]
          hd(3) g k dc(3) sub(3) sc(2) by blast
  have w4: "fst (validate_jwt_token ?D 100 ''token-nokid'' ?S)
     = Inl (HTTPException 401 ''Authentication failed''
              (Some [(''WWW-Authenticate'', ''Bearer'')]))"
    using validate_missing_scope
            [of ?D "''token-nokid''" "[(''alg'', JStr ''RS256'')]" 100 ?S example_jwks _ _ _
                "ValueError MissingKid"]
          hd(6) g nk by blast
  have w5: "fst (validate_jwt_token ?D 100 ''token-u1'' initial_state)
     = Inl (HTTPException 401 ''Authentication failed''
              (Some [(''WWW-Authenticate'', ''Bearer'')]))"
    using validate_missing_scope
            [of ?D "''token-u1''" ?h1 100 initial_state _ _ _ _ service_unavailable]
          hd(5) dn by blast
  have w6: "fst (validate_jwt_token ?D 100 ''garbage'' ?S)
     = Inl (HTTPException 401 ''Invalid authentication token''
              (Some [(''WWW-Authenticate'', ''Bearer'')]))"
    using validate_missing_scope [of ?D "''garbage''" _ 100 ?S _ _ _ _ JWTError]
          hd(7) by simp
  have w7: "fst (validate_jwt_token ?D 100 ''token-expired'' ?S)
     = Inl (HTTPException 401 ''Invalid authentication token''
              (Some [(''WWW-Authenticate'', ''Bearer'')]))"
    using validate_missing_scope
            [of ?D "''token-expired''" ?h1 100 ?S example_jwks example_key _ _ JWTError]
          hd(4) g k dc(4) by simp
  show ?thesis
    using w1 w2 w3 w4 w5 w6 w7 by (intro conjI)
qed

end
